theory Spec2Isabelle
  imports Main
begin

section \<open>Python values, exceptions and effects\<close>

text \<open>
  The module \<open>get_spectra_geoparquet.py\<close> is duck-typed: every argument of
  \<open>get_spectra_geoparquet\<close> and every value of the request payload is an arbitrary
  Python object. \<open>pyval\<close> holds the objects a JSON payload can carry (floats apart),
  plus the tuples the function builds itself.
  Strings are lists of 8-bit characters; \<open>lower\<close> and \<open>upper\<close> act on the ASCII
  letters, which is what Python does on ASCII text.
\<close>

datatype pyval =
    PNone
  | PBool bool
  | PInt int
  | PStr string
  | PList "pyval list"
  | PTuple "pyval list"

text \<open>
  The exception classes that occur, with Python's and pandas' subclass relation:
  \<open>pandas.errors.EmptyDataError\<close> is declared as a subclass of \<open>ValueError\<close>, and every
  class here derives from \<open>Exception\<close>. An exception carries its class and the text
  that \<open>str(e)\<close> gives.
\<close>

datatype exc_class =
    Exception
  | ValueError
  | EmptyDataError
  | FileNotFoundError
  | AttributeError
  | TypeError
  | KeyError
  | ProcessorExecuteError

datatype exc = Raise (cls: exc_class) (msg: string)

fun issubclass :: "exc_class \<Rightarrow> exc_class \<Rightarrow> bool" where
  "issubclass c Exception = True"
| "issubclass EmptyDataError ValueError = True"
| "issubclass c d = (c = d)"

definition isinstance :: "exc \<Rightarrow> exc_class \<Rightarrow> bool" where
  "isinstance e c = issubclass (cls e) c"

text \<open>
  What a call does besides returning: the records sent to \<open>LOGGER.error\<close>, the calls
  of \<open>pd.read_parquet\<close> with their arguments (path, columns, filters), and the call of
  the retrieval operation by the host adapter with its seven arguments.
\<close>

datatype event =
    Log_error string
  | Read_parquet string "string list option" "pyval list option"
  | Call_get_spectra "pyval list"

subsection \<open>Strings\<close>

definition ascii_upper :: string where
  "ascii_upper = ''ABCDEFGHIJKLMNOPQRSTUVWXYZ''"

definition ascii_lower :: string where
  "ascii_lower = ''abcdefghijklmnopqrstuvwxyz''"

definition lower_char :: "char \<Rightarrow> char" where
  "lower_char c = (case map_of (zip ascii_upper ascii_lower) c of Some d \<Rightarrow> d | None \<Rightarrow> c)"

definition upper_char :: "char \<Rightarrow> char" where
  "upper_char c = (case map_of (zip ascii_lower ascii_upper) c of Some d \<Rightarrow> d | None \<Rightarrow> c)"

definition lower :: "string \<Rightarrow> string" where
  "lower s = map lower_char s"

definition upper :: "string \<Rightarrow> string" where
  "upper s = map upper_char s"

text \<open>\<open>s.split(sep)\<close> for a one-character separator: never empty, keeps empty fields.\<close>

fun split :: "char \<Rightarrow> string \<Rightarrow> string list" where
  "split sep [] = [[]]"
| "split sep (c # cs) =
     (if c = sep then [] # split sep cs
      else (case split sep cs of
              [] \<Rightarrow> [[c]]
            | w # ws \<Rightarrow> (c # w) # ws))"

text \<open>\<open>sep.join(ws)\<close>, the inverse used to characterise \<open>split\<close>.\<close>

fun join :: "char \<Rightarrow> string list \<Rightarrow> string" where
  "join sep [] = []"
| "join sep [w] = w"
| "join sep (w # ws) = w @ sep # join sep ws"

subsection \<open>Attribute access, iteration, formatting, truth\<close>

fun type_name :: "pyval \<Rightarrow> string" where
  "type_name PNone = ''NoneType''"
| "type_name (PBool b) = ''bool''"
| "type_name (PInt i) = ''int''"
| "type_name (PStr s) = ''str''"
| "type_name (PList xs) = ''list''"
| "type_name (PTuple xs) = ''tuple''"

definition no_attribute :: "string \<Rightarrow> string \<Rightarrow> exc" where
  "no_attribute tn a =
     Raise AttributeError
       ([CHR 0x27] @ tn @ [CHR 0x27] @ '' object has no attribute '' @ [CHR 0x27] @ a @ [CHR 0x27])"

definition not_iterable :: "pyval \<Rightarrow> exc" where
  "not_iterable v =
     Raise TypeError ([CHR 0x27] @ type_name v @ [CHR 0x27] @ '' object is not iterable'')"

text \<open>\<open>v.lower()\<close>, \<open>v.upper()\<close> and \<open>v.split(';')\<close>: only \<open>str\<close> has these methods.\<close>

fun py_lower :: "pyval \<Rightarrow> exc + string" where
  "py_lower (PStr s) = Inr (lower s)"
| "py_lower v = Inl (no_attribute (type_name v) ''lower'')"

fun py_upper :: "pyval \<Rightarrow> exc + string" where
  "py_upper (PStr s) = Inr (upper s)"
| "py_upper v = Inl (no_attribute (type_name v) ''upper'')"

fun py_split :: "pyval \<Rightarrow> exc + string list" where
  "py_split (PStr s) = Inr (split CHR '';'' s)"
| "py_split v = Inl (no_attribute (type_name v) ''split'')"

text \<open>Iterating an object: lists and tuples give their items, a string its characters.\<close>

fun py_iter :: "pyval \<Rightarrow> exc + pyval list" where
  "py_iter (PList xs) = Inr xs"
| "py_iter (PTuple xs) = Inr xs"
| "py_iter (PStr s) = Inr (map (\<lambda>c. PStr [c]) s)"
| "py_iter v = Inl (not_iterable v)"

text \<open>\<open>tuple(v)\<close>.\<close>

definition py_tuple :: "pyval \<Rightarrow> exc + pyval" where
  "py_tuple v = (case py_iter v of Inl e \<Rightarrow> Inl e | Inr xs \<Rightarrow> Inr (PTuple xs))"

text \<open>A comprehension or \<open>Series.map\<close>: left to right, the first exception ends it.\<close>

fun map_exc :: "('a \<Rightarrow> exc + 'b) \<Rightarrow> 'a list \<Rightarrow> exc + 'b list" where
  "map_exc f [] = Inr []"
| "map_exc f (x # xs) =
     (case f x of
        Inl e \<Rightarrow> Inl e
      | Inr y \<Rightarrow> (case map_exc f xs of Inl e \<Rightarrow> Inl e | Inr ys \<Rightarrow> Inr (y # ys)))"

text \<open>
  \<open>f"{v}"\<close>: a string is inserted as it is, \<open>None\<close> as \<open>None\<close>, a boolean by its name.
  The text of numbers and containers is Python's builtin \<open>repr\<close>, a parameter here.
\<close>

fun py_format :: "(pyval \<Rightarrow> string) \<Rightarrow> pyval \<Rightarrow> string" where
  "py_format r (PStr s) = s"
| "py_format r PNone = ''None''"
| "py_format r (PBool b) = (if b then ''True'' else ''False'')"
| "py_format r v = r v"

text \<open>\<open>if v:\<close>.\<close>

fun truthy :: "pyval \<Rightarrow> bool" where
  "truthy PNone = False"
| "truthy (PBool b) = b"
| "truthy (PInt i) = (i \<noteq> 0)"
| "truthy (PStr s) = (s \<noteq> [])"
| "truthy (PList xs) = (xs \<noteq> [])"
| "truthy (PTuple xs) = (xs \<noteq> [])"

section \<open>The table library\<close>

text \<open>
  A pandas \<open>DataFrame\<close> as the code uses it: a row index (its name and its labels) and
  the named columns in order, each as long as the index. Cells are the objects read
  from the file (\<open>Val\<close>), the integers of a fresh \<open>RangeIndex\<close> (\<open>Row\<close>) and the
  coordinate records the code builds (\<open>Dict\<close>). Coordinates are floats and stay
  abstract (\<open>'c\<close>), as do the file's values (\<open>'v\<close>); equality of rows is equality of
  their cells.
\<close>

datatype ('v, 'c) cell =
    Val 'v
  | Row nat
  | Dict "(string \<times> 'c) list"

record ('v, 'c) dataframe =
  df_index_name :: "string option"
  df_index :: "('v, 'c) cell list"
  df_columns :: "(string \<times> ('v, 'c) cell list) list"

text \<open>What \<open>shapely.from_wkb\<close> returns: a point, or an object of another class.\<close>

datatype 'c geometry =
    Point 'c 'c
  | Not_point string

text \<open>
  A Python \<open>dict\<close> keeps insertion order; assigning to a key that is there replaces the
  value where it stands, a new key goes to the end. A \<open>dict\<close> built from pairs assigns
  them one by one.
\<close>

fun dict_set :: "('k \<times> 'a) list \<Rightarrow> 'k \<Rightarrow> 'a \<Rightarrow> ('k \<times> 'a) list" where
  "dict_set [] k v = [(k, v)]"
| "dict_set ((k', v') # d) k v =
     (if k' = k then (k, v) # d else (k', v') # dict_set d k v)"

definition dict_of :: "('k \<times> 'a) list \<Rightarrow> ('k \<times> 'a) list" where
  "dict_of kvs = foldl (\<lambda>d (k, v). dict_set d k v) [] kvs"

definition column_names :: "('v, 'c) dataframe \<Rightarrow> string list" where
  "column_names df = map fst (df_columns df)"

text \<open>\<open>df.empty\<close>: an axis of length 0.\<close>

definition df_empty :: "('v, 'c) dataframe \<Rightarrow> bool" where
  "df_empty df = (df_index df = [] \<or> df_columns df = [])"

text \<open>The rows of a table, one list of cells per index label.\<close>

definition df_rows :: "('v, 'c) dataframe \<Rightarrow> ('v, 'c) cell list list" where
  "df_rows df =
     foldr (\<lambda>(n, vs) acc. map2 (#) vs acc) (df_columns df)
       (replicate (length (df_index df)) [])"

text \<open>The rows that are not \<open>duplicated(keep='first')\<close>: those not seen before.\<close>

fun first_mask :: "'a list \<Rightarrow> 'a list \<Rightarrow> bool list" where
  "first_mask seen [] = []"
| "first_mask seen (r # rs) = (r \<notin> set seen) # first_mask (r # seen) rs"

fun select :: "bool list \<Rightarrow> 'a list \<Rightarrow> 'a list" where
  "select (b # bs) (x # xs) = (if b then x # select bs xs else select bs xs)"
| "select bs xs = []"

text \<open>
  \<open>df.drop_duplicates(ignore_index=True)\<close>: an empty table is returned as it is;
  otherwise the first of each group of equal rows is kept and the index becomes a
  fresh unnamed \<open>RangeIndex\<close>.
\<close>

definition drop_duplicates :: "('v, 'c) dataframe \<Rightarrow> ('v, 'c) dataframe" where
  "drop_duplicates df =
     (if df_empty df then df
      else let keep = first_mask [] (df_rows df) in
        \<lparr> df_index_name = None,
          df_index = map Row [0 ..< length (select keep (df_index df))],
          df_columns = map (\<lambda>(n, vs). (n, select keep vs)) (df_columns df) \<rparr>)"

text \<open>\<open>df.drop(columns=[name])\<close>: a \<open>KeyError\<close> when no column has the name.\<close>

definition drop_column :: "string \<Rightarrow> ('v, 'c) dataframe \<Rightarrow> exc + ('v, 'c) dataframe" where
  "drop_column name df =
     (if name \<notin> set (column_names df)
      then Inl (Raise KeyError
                  ([CHR 0x22] @ ''['' @ [CHR 0x27] @ name @ [CHR 0x27] @ ''] not found in axis''
                    @ [CHR 0x22]))
      else Inr (df \<lparr> df_columns := filter (\<lambda>(n, vs). n \<noteq> name) (df_columns df) \<rparr>))"

text \<open>\<open>df[name] = values\<close>, the values carrying the index of \<open>df\<close>.\<close>

definition set_column ::
  "string \<Rightarrow> ('v, 'c) cell list \<Rightarrow> ('v, 'c) dataframe \<Rightarrow> ('v, 'c) dataframe" where
  "set_column name vs df = df \<lparr> df_columns := dict_set (df_columns df) name vs \<rparr>"

text \<open>
  \<open>df.reset_index(inplace=True)\<close>: the old index becomes the first column, under the
  index's name, or \<open>index\<close> when it has none, or \<open>level_0\<close> when it has none and a
  column \<open>index\<close> is there; a \<open>ValueError\<close> when that name is taken. The new index is a
  fresh unnamed \<open>RangeIndex\<close>.
\<close>

definition reset_index :: "('v, 'c) dataframe \<Rightarrow> exc + ('v, 'c) dataframe" where
  "reset_index df =
     (let name = (case df_index_name df of
                    Some nm \<Rightarrow> nm
                  | None \<Rightarrow> if ''index'' \<in> set (column_names df) then ''level_0'' else ''index'')
      in if name \<in> set (column_names df)
         then Inl (Raise ValueError (''cannot insert '' @ name @ '', already exists''))
         else Inr \<lparr> df_index_name = None,
                    df_index = map Row [0 ..< length (df_index df)],
                    df_columns = (name, df_index df) # df_columns df \<rparr>)"

text \<open>
  The tables the model is meant for: column names are distinct and every column has
  one cell per index label.
\<close>

definition well_formed :: "('v, 'c) dataframe \<Rightarrow> bool" where
  "well_formed df =
     (distinct (column_names df) \<and>
      list_all (\<lambda>(n, vs). length vs = length (df_index df)) (df_columns df))"

text \<open>\<open>df.to_dict()\<close>: column name to (index label to cell).\<close>

type_synonym ('v, 'c) output_mapping = "(string \<times> (('v, 'c) cell \<times> ('v, 'c) cell) list) list"

definition to_dict :: "('v, 'c) dataframe \<Rightarrow> ('v, 'c) output_mapping" where
  "to_dict df = dict_of (map (\<lambda>(n, vs). (n, dict_of (zip (df_index df) vs))) (df_columns df))"

text \<open>
  The libraries a call reaches, as parameters: \<open>pd.read_parquet(path, engine='pyarrow',
  columns=..., filters=...)\<close>, which returns a table or raises, \<open>shapely.from_wkb\<close>,
  and Python's \<open>repr\<close>.
\<close>

record ('v, 'c) env =
  read_parquet ::
    "string \<Rightarrow> string list option \<Rightarrow> pyval list option \<Rightarrow> exc + ('v, 'c) dataframe"
  from_wkb :: "('v, 'c) cell \<Rightarrow> exc + 'c geometry"
  repr :: "pyval \<Rightarrow> string"

section \<open>The retrieval operation\<close>

definition MAIN_URL :: string where
  "MAIN_URL = ''https://goc-dx.science.gc.ca/~swav000/geoparquet''"

definition family_a :: "string list" where
  "family_a = [''gewps'', ''gdwps'']"

definition family_b :: "string list" where
  "family_b = [''rdwps'', ''rewps'']"

text \<open>Lines 137-138: \<open>if columns is not None: columns = columns.split(';')\<close>.\<close>

definition split_columns :: "pyval \<Rightarrow> exc + string list option" where
  "split_columns columns =
     (if columns \<noteq> PNone
      then (case py_split columns of Inl e \<Rightarrow> Inl e | Inr names \<Rightarrow> Inr (Some names))
      else Inr None)"

text \<open>Lines 140-141: \<open>if filters is not None: filters = [tuple(filter) for filter in filters]\<close>.\<close>

definition tuple_filters :: "pyval \<Rightarrow> exc + pyval list option" where
  "tuple_filters filters =
     (if filters \<noteq> PNone
      then (case py_iter filters of
              Inl e \<Rightarrow> Inl e
            | Inr clauses \<Rightarrow>
                (case map_exc py_tuple clauses of Inl e \<Rightarrow> Inl e | Inr ts \<Rightarrow> Inr (Some ts)))
      else Inr None)"

text \<open>
  Lines 143-148: the path. The model is lowered and tested first; the f-string is
  evaluated left to right, and only \<open>variable.upper()\<close> can raise in it once the model
  is a string.
\<close>

definition resolve_path ::
  "(pyval \<Rightarrow> string) \<Rightarrow> pyval \<Rightarrow> pyval \<Rightarrow> pyval \<Rightarrow> pyval \<Rightarrow> exc + string" where
  "resolve_path r model variable date region =
     (case py_lower model of
        Inl e \<Rightarrow> Inl e
      | Inr ml \<Rightarrow>
          if ml \<in> set family_a then
            (case py_upper model of Inl e \<Rightarrow> Inl e | Inr mu \<Rightarrow>
            (case py_upper variable of Inl e \<Rightarrow> Inl e | Inr vu \<Rightarrow>
               Inr (MAIN_URL @ ''/'' @ ml @ ''/'' @ py_format r date @ ''_MSC_'' @ mu
                     @ ''_'' @ vu @ ''.geoparquet'')))
          else if ml \<in> set family_b then
            (case py_upper model of Inl e \<Rightarrow> Inl e | Inr mu \<Rightarrow>
            (case py_upper variable of Inl e \<Rightarrow> Inl e | Inr vu \<Rightarrow>
               Inr (MAIN_URL @ ''/'' @ ml @ ''/'' @ py_format r date @ ''_MSC_'' @ mu
                     @ ''-'' @ py_format r region @ ''_'' @ vu @ ''.geoparquet'')))
          else Inl (Raise ValueError (''Invalid model '' @ py_format r model)))"

text \<open>Lines 152-157: the three \<open>except\<close> clauses, tried in order.\<close>

definition wrap_load_error :: "exc \<Rightarrow> exc" where
  "wrap_load_error e =
     (if isinstance e FileNotFoundError
        then Raise FileNotFoundError (''File not found: '' @ msg e)
      else if isinstance e EmptyDataError
        then Raise EmptyDataError (''Empty data: '' @ msg e)
      else Raise Exception (''An unexpected error occurred: '' @ msg e))"

text \<open>Line 166: \<open>lambda p: {'y': p.y, 'x': p.x}\<close>.\<close>

fun point_record :: "'c geometry \<Rightarrow> exc + ('v, 'c) cell" where
  "point_record (Point x y) = Inr (Dict [(''y'', y), (''x'', x)])"
| "point_record (Not_point tn) = Inl (no_attribute tn ''y'')"

text \<open>Lines 163-170: the body of \<open>if "geometry" in df.columns\<close>, for the column found.\<close>

definition geometry_to_point ::
  "('v, 'c) env \<Rightarrow> ('v, 'c) cell list \<Rightarrow> ('v, 'c) dataframe \<Rightarrow> exc + ('v, 'c) dataframe" where
  "geometry_to_point env geom df =
     (case drop_column ''geometry'' df of Inl e \<Rightarrow> Inl e | Inr df1 \<Rightarrow>
     (case map_exc (from_wkb env) geom of Inl e \<Rightarrow> Inl e | Inr points \<Rightarrow>
     (case map_exc point_record points of Inl e \<Rightarrow> Inl e | Inr records \<Rightarrow>
     (case reset_index (set_column ''point'' records df1) of Inl e \<Rightarrow> Inl e | Inr df2 \<Rightarrow>
        drop_column ''index'' df2))))"

text \<open>Lines 159-160: \<open>if remove_duplicates: df = df.drop_duplicates(ignore_index=True)\<close>.\<close>

definition maybe_drop_duplicates :: "pyval \<Rightarrow> ('v, 'c) dataframe \<Rightarrow> ('v, 'c) dataframe" where
  "maybe_drop_duplicates remove_duplicates df =
     (if truthy remove_duplicates then drop_duplicates df else df)"

text \<open>
  Lines 159-175: what is done with the table once it is loaded. The test
  \<open>"geometry" in df.columns\<close> and the selection \<open>df[:]["geometry"]\<close> are the one
  lookup of the column.
\<close>

definition transform ::
  "('v, 'c) env \<Rightarrow> pyval \<Rightarrow> ('v, 'c) dataframe \<Rightarrow> exc + ('v, 'c) output_mapping" where
  "transform env remove_duplicates df0 =
     (let df = maybe_drop_duplicates remove_duplicates df0 in
      case map_of (df_columns df) ''geometry'' of
        None \<Rightarrow> Inr (to_dict df)
      | Some geom \<Rightarrow>
          (case geometry_to_point env geom df of
             Inl e \<Rightarrow> Inl e
           | Inr df' \<Rightarrow> Inr (to_dict df')))"

text \<open>
  \<open>get_spectra_geoparquet(model, variable, date, region, columns, filters,
  remove_duplicates)\<close>: the result or the exception raised, and the events in order.
\<close>

definition get_spectra_geoparquet ::
  "('v, 'c) env \<Rightarrow> pyval \<Rightarrow> pyval \<Rightarrow> pyval \<Rightarrow> pyval \<Rightarrow> pyval \<Rightarrow> pyval \<Rightarrow> pyval
     \<Rightarrow> (exc + ('v, 'c) output_mapping) \<times> event list" where
  "get_spectra_geoparquet env model variable date region columns filters remove_duplicates =
     (case split_columns columns of Inl e \<Rightarrow> (Inl e, []) | Inr cols \<Rightarrow>
     (case tuple_filters filters of Inl e \<Rightarrow> (Inl e, []) | Inr flts \<Rightarrow>
     (case resolve_path (repr env) model variable date region of
        Inl e \<Rightarrow> (Inl e, [])
      | Inr path \<Rightarrow>
          (case read_parquet env path cols flts of
             Inl e \<Rightarrow> (Inl (wrap_load_error e), [Read_parquet path cols flts])
           | Inr df \<Rightarrow>
               (transform env remove_duplicates df, [Read_parquet path cols flts])))))"

section \<open>The host adapter\<close>

text \<open>\<open>data.get(key)\<close> and \<open>key in data\<close> on the request payload.\<close>

definition dict_get :: "(string \<rightharpoonup> pyval) \<Rightarrow> string \<Rightarrow> pyval" where
  "dict_get data k = (case data k of None \<Rightarrow> PNone | Some v \<Rightarrow> v)"

definition has_key :: "(string \<rightharpoonup> pyval) \<Rightarrow> string \<Rightarrow> bool" where
  "has_key data k = (data k \<noteq> None)"

text \<open>Lines 195-201: the parameters required for the model's family.\<close>

definition required_params :: "(pyval \<Rightarrow> string) \<Rightarrow> pyval \<Rightarrow> exc + string list" where
  "required_params r model =
     (case py_lower model of
        Inl e \<Rightarrow> Inl e
      | Inr ml \<Rightarrow>
          if ml \<in> set [''gdwps'', ''gewps''] then Inr [''model'', ''variable'', ''date'']
          else if ml \<in> set [''rdwps'', ''rewps'']
            then Inr [''model'', ''variable'', ''date'', ''region'']
          else Inl (Raise ValueError (''Invalid model '' @ py_format r model)))"

text \<open>
  \<open>GetSpectraGeoparquetProcessor.execute(data, outputs=None)\<close>; \<open>outputs\<close> is not read.
\<close>

definition execute ::
  "('v, 'c) env \<Rightarrow> (string \<rightharpoonup> pyval)
     \<Rightarrow> (exc + string \<times> ('v, 'c) output_mapping) \<times> event list" where
  "execute env data =
     (let model = dict_get data ''model'' in
      case required_params (repr env) model of
        Inl e \<Rightarrow> (Inl e, [])
      | Inr required \<Rightarrow>
          if \<not> list_all (has_key data) required then
            (let m = ''Missing required parameters.'' in
             (Inl (Raise ProcessorExecuteError m), [Log_error m]))
          else
            (let var = dict_get data ''variable'';
                 date = dict_get data ''date'';
                 region = dict_get data ''region'';
                 cols = dict_get data ''columns'';
                 filters = dict_get data ''filters'';
                 remove_duplicates = dict_get data ''remove_duplicates'';
                 mimetype = ''application/json'';
                 call = Call_get_spectra
                          [model, var, date, region, cols, filters, remove_duplicates]
             in case get_spectra_geoparquet env model var date region cols filters
                       remove_duplicates of
                  (Inl err, evs) \<Rightarrow>
                    if isinstance err ValueError then
                      (let m = ''Process execution error: '' @ msg err in
                       (Inl (Raise ProcessorExecuteError m), call # evs @ [Log_error m]))
                    else (Inl err, call # evs)
                | (Inr output, evs) \<Rightarrow> (Inr (mimetype, output), call # evs)))"

section \<open>Concrete inputs\<close>

text \<open>
  Small tables, library stand-ins and payloads on which the theorems below are
  evaluated. File values are lists of numbers; a two-element list stands for the
  encoding of the point with these coordinates.
\<close>

definition example_repr :: "pyval \<Rightarrow> string" where
  "example_repr v = ''<object>''"

fun example_wkb :: "(nat list, int) cell \<Rightarrow> exc + int geometry" where
  "example_wkb (Val [x, y]) = Inr (Point (int x) (int y))"
| "example_wkb c = Inr (Not_point ''LineString'')"

definition example_env :: "(nat list, int) dataframe \<Rightarrow> (nat list, int) env" where
  "example_env tbl =
     \<lparr> read_parquet = (\<lambda>path cols flts. Inr tbl), from_wkb = example_wkb, repr = example_repr \<rparr>"

definition failing_env :: "exc \<Rightarrow> (nat list, int) env" where
  "failing_env e =
     \<lparr> read_parquet = (\<lambda>path cols flts. Inl e), from_wkb = example_wkb, repr = example_repr \<rparr>"

definition spectra_table :: "(nat list, int) dataframe" where
  "spectra_table =
     \<lparr> df_index_name = None,
       df_index = [Row 0, Row 1, Row 2],
       df_columns = [(''station_name'', [Val [1], Val [2], Val [1]]),
                     (''geometry'', [Val [10, 20], Val [30, 40], Val [10, 20]])] \<rparr>"

definition plain_table :: "(nat list, int) dataframe" where
  "plain_table =
     \<lparr> df_index_name = None,
       df_index = [Row 0, Row 1, Row 2],
       df_columns = [(''station_name'', [Val [1], Val [2], Val [1]]),
                     (''member'', [Val [0], Val [0], Val [0]])] \<rparr>"

definition indexed_table :: "(nat list, int) dataframe" where
  "indexed_table =
     \<lparr> df_index_name = None,
       df_index = [Row 0, Row 1],
       df_columns = [(''index'', [Val [7], Val [8]]),
                     (''geometry'', [Val [10, 20], Val [30, 40]])] \<rparr>"

definition named_index_table :: "(nat list, int) dataframe" where
  "named_index_table =
     \<lparr> df_index_name = Some ''station'',
       df_index = [Val [1], Val [2]],
       df_columns = [(''member'', [Val [0], Val [0]]),
                     (''geometry'', [Val [10, 20], Val [30, 40]])] \<rparr>"

definition repeated_labels_table :: "(nat list, int) dataframe" where
  "repeated_labels_table =
     \<lparr> df_index_name = None,
       df_index = [Val [0], Val [0]],
       df_columns = [(''station_name'', [Val [1], Val [2]])] \<rparr>"

definition repeated_names_table :: "(nat list, int) dataframe" where
  "repeated_names_table =
     \<lparr> df_index_name = None,
       df_index = [Row 0],
       df_columns = [(''member'', [Val [1]]), (''member'', [Val [2]])] \<rparr>"

definition pointed_table :: "(nat list, int) dataframe" where
  "pointed_table =
     \<lparr> df_index_name = None,
       df_index = [Row 0, Row 1],
       df_columns = [(''point'', [Val [5], Val [6]]),
                     (''station_name'', [Val [1], Val [2]]),
                     (''geometry'', [Val [10, 20], Val [30, 40]])] \<rparr>"

definition example_payload :: "string \<rightharpoonup> pyval" where
  "example_payload =
     [''model'' \<mapsto> PStr ''GEWPS'', ''variable'' \<mapsto> PStr ''EFTH'',
      ''date'' \<mapsto> PStr ''2025031500'']"

definition example_filters :: pyval where
  "example_filters =
     PList [PList [PStr ''station_name'', PStr ''=='', PStr ''00N000E''],
            PList [PStr ''member'', PStr ''=='', PInt 0]]"

section \<open>Auxiliary facts\<close>

lemmas string_eval =
  lower_def lower_char_def upper_def upper_char_def ascii_upper_def ascii_lower_def
  family_a_def family_b_def MAIN_URL_def

lemma family_disjoint: "x \<in> set family_b \<Longrightarrow> x \<notin> set family_a"
  by (auto simp: family_a_def family_b_def)

lemma split_columns_simps:
  "split_columns PNone = Inr None"
  "split_columns (PStr s) = Inr (Some (split CHR '';'' s))"
  by (simp_all add: split_columns_def)

lemma map_exc_tuple: "map_exc py_tuple (map PList cs) = Inr (map PTuple cs)"
  by (induction cs) (simp_all add: py_tuple_def)

lemma tuple_filters_simps:
  "tuple_filters PNone = Inr None"
  "tuple_filters (PList (map PList cs)) = Inr (Some (map PTuple cs))"
  by (simp_all add: tuple_filters_def map_exc_tuple)

text \<open>Once the arguments are prepared and the path is resolved, the table is read once.\<close>

lemma get_spectra_loaded:
  assumes "split_columns columns = Inr cols"
      and "tuple_filters filters = Inr flts"
      and "resolve_path (repr env) model variable date region = Inr path"
  shows "get_spectra_geoparquet env model variable date region columns filters rd =
           ((case read_parquet env path cols flts of
               Inl e \<Rightarrow> Inl (wrap_load_error e)
             | Inr df \<Rightarrow> transform env rd df),
            [Read_parquet path cols flts])"
  using assms by (simp add: get_spectra_geoparquet_def split: sum.splits)

lemma isinstance_ValueError:
  "isinstance e ValueError \<longleftrightarrow> cls e = ValueError \<or> cls e = EmptyDataError"
  by (cases "cls e") (simp_all add: isinstance_def)

lemma example_required:
  "required_params (repr (failing_env e)) (dict_get example_payload ''model'') =
     Inr [''model'', ''variable'', ''date'']"
  "list_all (has_key example_payload) [''model'', ''variable'', ''date'']"
  by (simp_all add: example_payload_def dict_get_def has_key_def required_params_def string_eval)

lemma example_failing_call:
  "get_spectra_geoparquet (failing_env e) (dict_get example_payload ''model'')
     (dict_get example_payload ''variable'') (dict_get example_payload ''date'')
     (dict_get example_payload ''region'') (dict_get example_payload ''columns'')
     (dict_get example_payload ''filters'') (dict_get example_payload ''remove_duplicates'') =
   (Inl (wrap_load_error e),
    [Read_parquet
       ''https://goc-dx.science.gc.ca/~swav000/geoparquet/gewps/2025031500_MSC_GEWPS_EFTH.geoparquet''
       None None])"
  by (simp add: example_payload_def dict_get_def get_spectra_geoparquet_def split_columns_def
        tuple_filters_def resolve_path_def failing_env_def string_eval)

section \<open>Path resolution\<close>

text \<open>
  C2. For a model whose lowercase form is \<open>gewps\<close> or \<open>gdwps\<close>, and any variable and
  date strings, the path is
  \<open>{base}/{model_lower}/{date}_MSC_{MODEL_UPPER}_{VARIABLE_UPPER}.geoparquet\<close>; for a
  model whose lowercase form is \<open>rdwps\<close> or \<open>rewps\<close> and a region string it is
  \<open>{base}/{model_lower}/{date}_MSC_{MODEL_UPPER}-{REGION}_{VARIABLE_UPPER}.geoparquet\<close>,
  the region as given; \<open>base\<close> is the constant \<open>MAIN_URL\<close>.
\<close>

theorem path_of_family:
  "(lower m \<in> set family_a \<longrightarrow>
      resolve_path r (PStr m) (PStr v) (PStr d) region =
        Inr (MAIN_URL @ ''/'' @ lower m @ ''/'' @ d @ ''_MSC_'' @ upper m @ ''_'' @ upper v
              @ ''.geoparquet'')) \<and>
   (lower m \<in> set family_b \<longrightarrow>
      resolve_path r (PStr m) (PStr v) (PStr d) (PStr g) =
        Inr (MAIN_URL @ ''/'' @ lower m @ ''/'' @ d @ ''_MSC_'' @ upper m @ ''-'' @ g @ ''_''
              @ upper v @ ''.geoparquet''))"
  by (simp add: resolve_path_def family_disjoint)

theorem path_of_family_witness:
  "lower ''GEWPS'' \<in> set family_a \<and>
   resolve_path example_repr (PStr ''GEWPS'') (PStr ''EFTH'') (PStr ''2025031500'') PNone =
     Inr ''https://goc-dx.science.gc.ca/~swav000/geoparquet/gewps/2025031500_MSC_GEWPS_EFTH.geoparquet'' \<and>
   lower ''Rdwps'' \<in> set family_b \<and>
   resolve_path example_repr (PStr ''Rdwps'') (PStr ''efth'') (PStr ''2025031500'')
       (PStr ''NAT'') =
     Inr ''https://goc-dx.science.gc.ca/~swav000/geoparquet/rdwps/2025031500_MSC_RDWPS-NAT_EFTH.geoparquet''"
  using path_of_family [of "''GEWPS''" example_repr "''EFTH''" "''2025031500''" PNone "''NAT''"]
        path_of_family [of "''Rdwps''" example_repr "''efth''" "''2025031500''" PNone "''NAT''"]
  by (simp add: string_eval)

text \<open>
  C3. For a model string whose lowercase form is in neither family, path resolution
  fails with \<open>ValueError("Invalid model ...")\<close> and gives no path; the operation fails
  with no call of the reader, and with this very error whenever the columns and
  filters arguments are of the kinds the operation accepts.
\<close>

theorem invalid_model_rejected:
  assumes "lower m \<notin> set family_a" and "lower m \<notin> set family_b"
  shows "resolve_path r (PStr m) variable date region =
           Inl (Raise ValueError (''Invalid model '' @ m)) \<and>
         (\<exists>e. get_spectra_geoparquet env (PStr m) variable date region columns filters rd =
                 (Inl e, [])) \<and>
         (\<forall>cols flts.
            split_columns columns = Inr cols \<longrightarrow> tuple_filters filters = Inr flts \<longrightarrow>
            get_spectra_geoparquet env (PStr m) variable date region columns filters rd =
              (Inl (Raise ValueError (''Invalid model '' @ m)), []))"
  using assms
  by (auto simp add: resolve_path_def get_spectra_geoparquet_def split: sum.splits)

theorem invalid_model_rejected_witness:
  "lower ''WW3'' \<notin> set family_a \<and> lower ''WW3'' \<notin> set family_b \<and>
   resolve_path example_repr (PStr ''WW3'') (PStr ''EFTH'') (PStr ''2025031500'') PNone =
     Inl (Raise ValueError ''Invalid model WW3'') \<and>
   split_columns (PStr ''station_name;member'') = Inr (Some [''station_name'', ''member'']) \<and>
   tuple_filters PNone = Inr None \<and>
   get_spectra_geoparquet (example_env spectra_table) (PStr ''WW3'') (PStr ''EFTH'')
       (PStr ''2025031500'') PNone (PStr ''station_name;member'') PNone PNone =
     (Inl (Raise ValueError ''Invalid model WW3''), [])"
  using invalid_model_rejected [of "''WW3''" example_repr "PStr ''EFTH''" "PStr ''2025031500''"
          PNone "example_env spectra_table" "PStr ''station_name;member''" PNone PNone]
  by (simp add: string_eval split_columns_simps tuple_filters_simps)

text \<open>
  C10. For a model of the second family, a call with \<open>region = None\<close> resolves a path
  whose region slot holds the text \<open>None\<close>, and reads it; path resolution succeeds for
  every region and date value, so the operation never requires a region.
\<close>

theorem region_not_enforced:
  assumes "lower m \<in> set family_b"
  shows "resolve_path r (PStr m) (PStr v) (PStr d) PNone =
           Inr (MAIN_URL @ ''/'' @ lower m @ ''/'' @ d @ ''_MSC_'' @ upper m @ ''-None_''
                 @ upper v @ ''.geoparquet'') \<and>
         snd (get_spectra_geoparquet env (PStr m) (PStr v) (PStr d) PNone PNone PNone rd) =
           [Read_parquet
              (MAIN_URL @ ''/'' @ lower m @ ''/'' @ d @ ''_MSC_'' @ upper m @ ''-None_''
                 @ upper v @ ''.geoparquet'') None None] \<and>
         (\<exists>path. resolve_path r (PStr m) (PStr v) date region = Inr path)"
proof -
  have a: "lower m \<notin> set family_a"
    using assms by (rule family_disjoint)
  have p: "resolve_path r' (PStr m) (PStr v) (PStr d) PNone =
           Inr (MAIN_URL @ ''/'' @ lower m @ ''/'' @ d @ ''_MSC_'' @ upper m @ ''-None_''
                 @ upper v @ ''.geoparquet'')" for r'
    using assms a by (simp add: resolve_path_def)
  have q: "\<exists>path. resolve_path r (PStr m) (PStr v) date region = Inr path"
    using assms a by (simp add: resolve_path_def)
  show ?thesis
    using p q
    by (simp add: get_spectra_loaded [OF split_columns_simps(1) tuple_filters_simps(1) p])
qed

theorem region_not_enforced_witness:
  "lower ''rdwps'' \<in> set family_b \<and>
   resolve_path example_repr (PStr ''rdwps'') (PStr ''efth'') (PStr ''2025031500'') PNone =
     Inr ''https://goc-dx.science.gc.ca/~swav000/geoparquet/rdwps/2025031500_MSC_RDWPS-None_EFTH.geoparquet'' \<and>
   snd (get_spectra_geoparquet (example_env plain_table) (PStr ''rdwps'') (PStr ''efth'')
          (PStr ''2025031500'') PNone PNone PNone PNone) =
     [Read_parquet
        ''https://goc-dx.science.gc.ca/~swav000/geoparquet/rdwps/2025031500_MSC_RDWPS-None_EFTH.geoparquet''
        None None]"
  using region_not_enforced [of "''rdwps''" example_repr "''efth''" "''2025031500''"
          "example_env plain_table" PNone PNone PNone]
  by (simp add: string_eval)

section \<open>Load failures\<close>

text \<open>
  C4. When the reader raises, the operation raises too, after that one read: a
  \<open>FileNotFoundError\<close> becomes \<open>FileNotFoundError("File not found: ...")\<close>, an
  \<open>EmptyDataError\<close> becomes \<open>EmptyDataError("Empty data: ...")\<close>, anything else becomes
  \<open>Exception("An unexpected error occurred: ...")\<close>, and the new message ends with the
  original one.
\<close>

theorem load_failure_rewrapped:
  assumes "split_columns columns = Inr cols"
      and "tuple_filters filters = Inr flts"
      and "resolve_path (repr env) model variable date region = Inr path"
      and "read_parquet env path cols flts = Inl e"
  shows "\<exists>e'. get_spectra_geoparquet env model variable date region columns filters rd =
                (Inl e', [Read_parquet path cols flts]) \<and>
              (cls e = FileNotFoundError \<longrightarrow>
                 e' = Raise FileNotFoundError (''File not found: '' @ msg e)) \<and>
              (cls e = EmptyDataError \<longrightarrow>
                 e' = Raise EmptyDataError (''Empty data: '' @ msg e)) \<and>
              (cls e \<noteq> FileNotFoundError \<and> cls e \<noteq> EmptyDataError \<longrightarrow>
                 e' = Raise Exception (''An unexpected error occurred: '' @ msg e)) \<and>
              (\<exists>prefix. msg e' = prefix @ msg e)"
  using assms
  by (cases "cls e") (simp_all add: get_spectra_loaded wrap_load_error_def isinstance_def)

theorem load_failure_rewrapped_witness:
  "get_spectra_geoparquet (failing_env (Raise FileNotFoundError ''no such file''))
       (PStr ''GEWPS'') (PStr ''EFTH'') (PStr ''2025031500'') PNone PNone PNone PNone =
     (Inl (Raise FileNotFoundError ''File not found: no such file''),
      [Read_parquet
         ''https://goc-dx.science.gc.ca/~swav000/geoparquet/gewps/2025031500_MSC_GEWPS_EFTH.geoparquet''
         None None]) \<and>
   get_spectra_geoparquet (failing_env (Raise EmptyDataError ''no columns''))
       (PStr ''GEWPS'') (PStr ''EFTH'') (PStr ''2025031500'') PNone PNone PNone PNone =
     (Inl (Raise EmptyDataError ''Empty data: no columns''),
      [Read_parquet
         ''https://goc-dx.science.gc.ca/~swav000/geoparquet/gewps/2025031500_MSC_GEWPS_EFTH.geoparquet''
         None None]) \<and>
   get_spectra_geoparquet (failing_env (Raise TypeError ''bad magic''))
       (PStr ''GEWPS'') (PStr ''EFTH'') (PStr ''2025031500'') PNone PNone PNone PNone =
     (Inl (Raise Exception ''An unexpected error occurred: bad magic''),
      [Read_parquet
         ''https://goc-dx.science.gc.ca/~swav000/geoparquet/gewps/2025031500_MSC_GEWPS_EFTH.geoparquet''
         None None])"
proof -
  let ?p = "''https://goc-dx.science.gc.ca/~swav000/geoparquet/gewps/2025031500_MSC_GEWPS_EFTH.geoparquet''"
  have r: "resolve_path (repr (failing_env e)) (PStr ''GEWPS'') (PStr ''EFTH'')
             (PStr ''2025031500'') PNone = Inr ?p" for e
    by (simp add: failing_env_def resolve_path_def string_eval)
  have l: "read_parquet (failing_env e) ?p None None = Inl e" for e
    by (simp add: failing_env_def)
  note inst = load_failure_rewrapped [OF split_columns_simps(1) tuple_filters_simps(1) r l]
  show ?thesis
    using inst [of "Raise FileNotFoundError ''no such file''" PNone]
          inst [of "Raise EmptyDataError ''no columns''" PNone]
          inst [of "Raise TypeError ''bad magic''" PNone]
    by auto
qed

section \<open>The host adapter's checks\<close>

lemma required_params_family:
  "lower m \<in> set family_a \<Longrightarrow>
     required_params r (PStr m) = Inr [''model'', ''variable'', ''date'']"
  "lower m \<in> set family_b \<Longrightarrow>
     required_params r (PStr m) = Inr [''model'', ''variable'', ''date'', ''region'']"
  "lower m \<notin> set family_a \<Longrightarrow> lower m \<notin> set family_b \<Longrightarrow>
     required_params r (PStr m) = Inl (Raise ValueError (''Invalid model '' @ m))"
  by (auto simp add: required_params_def family_a_def family_b_def)

text \<open>
  C5. For a payload whose model belongs to a family and that lacks a parameter the
  family requires (\<open>variable\<close> or \<open>date\<close>; also \<open>region\<close> for the second family),
  \<open>execute\<close> logs and raises \<open>ProcessorExecuteError("Missing required parameters.")\<close>;
  the retrieval operation is not called and nothing is read.
\<close>

theorem missing_parameter_rejected:
  assumes "data ''model'' = Some (PStr m)"
      and "(lower m \<in> set family_a \<and> (data ''variable'' = None \<or> data ''date'' = None)) \<or>
           (lower m \<in> set family_b \<and>
              (data ''variable'' = None \<or> data ''date'' = None \<or> data ''region'' = None))"
  shows "execute env data =
           (Inl (Raise ProcessorExecuteError ''Missing required parameters.''),
            [Log_error ''Missing required parameters.'']) \<and>
         Call_get_spectra args \<notin> set (snd (execute env data)) \<and>
         Read_parquet path cols flts \<notin> set (snd (execute env data))"
proof -
  have "execute env data =
           (Inl (Raise ProcessorExecuteError ''Missing required parameters.''),
            [Log_error ''Missing required parameters.''])"
    using assms
    by (auto simp add: execute_def Let_def dict_get_def has_key_def required_params_family)
  then show ?thesis by simp
qed

theorem missing_parameter_rejected_witness:
  "(example_payload(''date'' := None)) ''model'' = Some (PStr ''GEWPS'') \<and>
   lower ''GEWPS'' \<in> set family_a \<and>
   (example_payload(''date'' := None)) ''date'' = None \<and>
   execute (example_env spectra_table) (example_payload(''date'' := None)) =
     (Inl (Raise ProcessorExecuteError ''Missing required parameters.''),
      [Log_error ''Missing required parameters.''])"
  using missing_parameter_rejected
          [of "example_payload(''date'' := None)" "''GEWPS''" "example_env spectra_table"]
  by (simp add: example_payload_def string_eval)

text \<open>A payload without \<open>model\<close> is not such a payload: \<open>None.lower()\<close> raises first.\<close>

lemma execute_without_model:
  "data ''model'' = None \<Longrightarrow>
     execute env data = (Inl (no_attribute ''NoneType'' ''lower''), [])"
  by (simp add: execute_def dict_get_def required_params_def)

text \<open>
  C9. For a payload whose model is a string of neither family, \<open>execute\<close> raises
  \<open>ValueError("Invalid model ...")\<close> itself: nothing is logged, nothing is called, and
  the error is not a \<open>ProcessorExecuteError\<close>. Whatever the payload, an error record is
  logged only for missing parameters or for a \<open>ValueError\<close> raised by the call of the
  retrieval operation, which is the one that is translated.
\<close>

theorem invalid_model_in_execute:
  assumes "data ''model'' = Some (PStr m)"
      and "lower m \<notin> set family_a" and "lower m \<notin> set family_b"
  shows "execute env data = (Inl (Raise ValueError (''Invalid model '' @ m)), []) \<and>
         (\<forall>data' l. Log_error l \<in> set (snd (execute env data')) \<longrightarrow>
            l = ''Missing required parameters.'' \<or>
            (\<exists>e evs. get_spectra_geoparquet env (dict_get data' ''model'')
                (dict_get data' ''variable'') (dict_get data' ''date'') (dict_get data' ''region'')
                (dict_get data' ''columns'') (dict_get data' ''filters'')
                (dict_get data' ''remove_duplicates'') = (Inl e, evs) \<and>
              isinstance e ValueError \<and> l = ''Process execution error: '' @ msg e))"
proof (intro conjI allI impI)
  show "execute env data = (Inl (Raise ValueError (''Invalid model '' @ m)), [])"
    using assms by (simp add: execute_def Let_def dict_get_def required_params_family)
next
  fix data' l
  assume "Log_error l \<in> set (snd (execute env data'))"
  then show "l = ''Missing required parameters.'' \<or>
            (\<exists>e evs. get_spectra_geoparquet env (dict_get data' ''model'')
                (dict_get data' ''variable'') (dict_get data' ''date'') (dict_get data' ''region'')
                (dict_get data' ''columns'') (dict_get data' ''filters'')
                (dict_get data' ''remove_duplicates'') = (Inl e, evs) \<and>
              isinstance e ValueError \<and> l = ''Process execution error: '' @ msg e)"
    apply (simp add: execute_def Let_def split: sum.splits if_splits prod.splits)
    apply (auto simp: get_spectra_geoparquet_def split: sum.splits if_splits)
    done
qed

theorem invalid_model_in_execute_witness:
  "(example_payload(''model'' \<mapsto> PStr ''WW3'')) ''model'' = Some (PStr ''WW3'') \<and>
   lower ''WW3'' \<notin> set family_a \<and> lower ''WW3'' \<notin> set family_b \<and>
   execute (failing_env (Raise EmptyDataError ''no columns''))
       (example_payload(''model'' \<mapsto> PStr ''WW3'')) =
     (Inl (Raise ValueError ''Invalid model WW3''), []) \<and>
   Log_error ''Process execution error: Empty data: no columns''
     \<in> set (snd (execute (failing_env (Raise EmptyDataError ''no columns'')) example_payload)) \<and>
   (\<exists>e evs.
      get_spectra_geoparquet (failing_env (Raise EmptyDataError ''no columns''))
        (dict_get example_payload ''model'') (dict_get example_payload ''variable'')
        (dict_get example_payload ''date'') (dict_get example_payload ''region'')
        (dict_get example_payload ''columns'') (dict_get example_payload ''filters'')
        (dict_get example_payload ''remove_duplicates'') = (Inl e, evs) \<and>
      isinstance e ValueError \<and>
      ''Process execution error: Empty data: no columns'' = ''Process execution error: '' @ msg e)"
proof -
  let ?env = "failing_env (Raise EmptyDataError ''no columns'')"
  let ?bad = "example_payload(''model'' \<mapsto> PStr ''WW3'')"
  have m: "?bad ''model'' = Some (PStr ''WW3'')"
    by simp
  have a: "lower ''WW3'' \<notin> set family_a" and b: "lower ''WW3'' \<notin> set family_b"
    by (simp_all add: string_eval)
  note inst = invalid_model_in_execute [of ?bad "''WW3''" ?env, OF m a b]
  have l: "Log_error ''Process execution error: Empty data: no columns''
             \<in> set (snd (execute ?env example_payload))"
    using example_required(2)
    by (simp add: execute_def Let_def example_required(1) example_failing_call
          wrap_load_error_def isinstance_def)
  from inst l have
    "''Process execution error: Empty data: no columns'' = ''Missing required parameters.'' \<or>
     (\<exists>e evs.
        get_spectra_geoparquet ?env
          (dict_get example_payload ''model'') (dict_get example_payload ''variable'')
          (dict_get example_payload ''date'') (dict_get example_payload ''region'')
          (dict_get example_payload ''columns'') (dict_get example_payload ''filters'')
          (dict_get example_payload ''remove_duplicates'') = (Inl e, evs) \<and>
        isinstance e ValueError \<and>
        ''Process execution error: Empty data: no columns'' = ''Process execution error: '' @ msg e)"
    by blast
  then have "\<exists>e evs.
        get_spectra_geoparquet ?env
          (dict_get example_payload ''model'') (dict_get example_payload ''variable'')
          (dict_get example_payload ''date'') (dict_get example_payload ''region'')
          (dict_get example_payload ''columns'') (dict_get example_payload ''filters'')
          (dict_get example_payload ''remove_duplicates'') = (Inl e, evs) \<and>
        isinstance e ValueError \<and>
        ''Process execution error: Empty data: no columns'' = ''Process execution error: '' @ msg e"
    by simp
  moreover have "execute ?env ?bad = (Inl (Raise ValueError ''Invalid model WW3''), [])"
    using inst by simp
  ultimately show ?thesis
    using m a b l by (intro conjI)
qed

section \<open>Translation of failures by the host adapter\<close>

text \<open>
  C6, as the code has it. When the payload passes the checks and the retrieval
  operation raises, \<open>execute\<close> translates every exception caught by
  \<open>except ValueError\<close>, that is a \<open>ValueError\<close> and also the \<open>EmptyDataError\<close> of the
  table library, which is a subclass of it, into a logged
  \<open>ProcessorExecuteError("Process execution error: ...")\<close> carrying the original
  message; every other exception, the not-found and the generic load failure among
  them, leaves \<open>execute\<close> unchanged.
\<close>

theorem value_errors_translated:
  assumes "required_params (repr env) (dict_get data ''model'') = Inr required"
      and "list_all (has_key data) required"
      and "get_spectra_geoparquet env (dict_get data ''model'') (dict_get data ''variable'')
             (dict_get data ''date'') (dict_get data ''region'') (dict_get data ''columns'')
             (dict_get data ''filters'') (dict_get data ''remove_duplicates'') = (Inl e, evs)"
  shows "(cls e = ValueError \<or> cls e = EmptyDataError \<longrightarrow>
            execute env data =
              (Inl (Raise ProcessorExecuteError (''Process execution error: '' @ msg e)),
               Call_get_spectra
                 [dict_get data ''model'', dict_get data ''variable'', dict_get data ''date'',
                  dict_get data ''region'', dict_get data ''columns'', dict_get data ''filters'',
                  dict_get data ''remove_duplicates'']
               # evs @ [Log_error (''Process execution error: '' @ msg e)])) \<and>
         (cls e \<noteq> ValueError \<and> cls e \<noteq> EmptyDataError \<longrightarrow>
            execute env data =
              (Inl e,
               Call_get_spectra
                 [dict_get data ''model'', dict_get data ''variable'', dict_get data ''date'',
                  dict_get data ''region'', dict_get data ''columns'', dict_get data ''filters'',
                  dict_get data ''remove_duplicates'']
               # evs))"
  using assms by (simp add: execute_def Let_def isinstance_ValueError)

theorem value_errors_translated_witness:
  "execute (failing_env (Raise EmptyDataError ''no columns'')) example_payload =
     (Inl (Raise ProcessorExecuteError ''Process execution error: Empty data: no columns''),
      [Call_get_spectra
         [PStr ''GEWPS'', PStr ''EFTH'', PStr ''2025031500'', PNone, PNone, PNone, PNone],
       Read_parquet
         ''https://goc-dx.science.gc.ca/~swav000/geoparquet/gewps/2025031500_MSC_GEWPS_EFTH.geoparquet''
         None None,
       Log_error ''Process execution error: Empty data: no columns'']) \<and>
   execute (failing_env (Raise FileNotFoundError ''no such file'')) example_payload =
     (Inl (Raise FileNotFoundError ''File not found: no such file''),
      [Call_get_spectra
         [PStr ''GEWPS'', PStr ''EFTH'', PStr ''2025031500'', PNone, PNone, PNone, PNone],
       Read_parquet
         ''https://goc-dx.science.gc.ca/~swav000/geoparquet/gewps/2025031500_MSC_GEWPS_EFTH.geoparquet''
         None None])"
  using value_errors_translated
          [OF example_required example_failing_call, of "Raise EmptyDataError ''no columns''"]
        value_errors_translated
          [OF example_required example_failing_call, of "Raise FileNotFoundError ''no such file''"]
  by (simp add: wrap_load_error_def isinstance_def example_payload_def dict_get_def)

text \<open>
  C6, as stated, fails: an empty-data failure raised by the retrieval operation does
  not leave \<open>execute\<close> unchanged, it comes out as a \<open>ProcessorExecuteError\<close>.
\<close>

theorem empty_data_not_propagated:
  "get_spectra_geoparquet (failing_env (Raise EmptyDataError ''no columns''))
       (PStr ''GEWPS'') (PStr ''EFTH'') (PStr ''2025031500'') PNone PNone PNone PNone =
     (Inl (Raise EmptyDataError ''Empty data: no columns''),
      [Read_parquet
         ''https://goc-dx.science.gc.ca/~swav000/geoparquet/gewps/2025031500_MSC_GEWPS_EFTH.geoparquet''
         None None]) \<and>
   fst (execute (failing_env (Raise EmptyDataError ''no columns'')) example_payload) =
     Inl (Raise ProcessorExecuteError ''Process execution error: Empty data: no columns'') \<and>
   fst (execute (failing_env (Raise EmptyDataError ''no columns'')) example_payload) \<noteq>
     Inl (Raise EmptyDataError ''Empty data: no columns'')"
  by (simp add: execute_def Let_def example_payload_def dict_get_def has_key_def
        required_params_def get_spectra_geoparquet_def split_columns_def tuple_filters_def
        resolve_path_def failing_env_def wrap_load_error_def isinstance_def string_eval)

section \<open>Columns and filters\<close>

lemma join_Cons: "join sep ((a # w) # ws) = a # join sep (w # ws)"
  by (cases ws) simp_all

lemma join_split: "join sep (split sep s) = s"
  by (induction s) (auto split: list.splits simp: join_Cons)

lemma split_no_sep: "w \<in> set (split sep s) \<Longrightarrow> sep \<notin> set w"
  by (induction s arbitrary: w) (auto split: list.splits if_splits)

text \<open>
  C8. Whatever the filters argument, a columns string is split on \<open>;\<close> into the ordered
  list of names (joined again with \<open>;\<close> they give the string back, and no name holds
  a \<open>;\<close>) and that list is the columns argument of the one call of the reader.
  Whatever the columns argument, every filter clause given as a list becomes the
  tuple of the same items, in the same order, and the list of these tuples is the
  filters argument of that call. What follows works on the table the reader returned
  and has neither of them.
\<close>

theorem columns_and_filters_pushed_down:
  assumes "resolve_path (repr env) model variable date region = Inr path"
  shows "(\<forall>flts. tuple_filters filters = Inr flts \<longrightarrow>
            get_spectra_geoparquet env model variable date region (PStr s) filters rd =
              ((case read_parquet env path (Some (split CHR '';'' s)) flts of
                  Inl e \<Rightarrow> Inl (wrap_load_error e)
                | Inr df \<Rightarrow> transform env rd df),
               [Read_parquet path (Some (split CHR '';'' s)) flts])) \<and>
         (\<forall>cols. split_columns columns = Inr cols \<longrightarrow>
            get_spectra_geoparquet env model variable date region columns
                (PList (map PList clauses)) rd =
              ((case read_parquet env path cols (Some (map PTuple clauses)) of
                  Inl e \<Rightarrow> Inl (wrap_load_error e)
                | Inr df \<Rightarrow> transform env rd df),
               [Read_parquet path cols (Some (map PTuple clauses))])) \<and>
         join CHR '';'' (split CHR '';'' s) = s \<and>
         (\<forall>w \<in> set (split CHR '';'' s). CHR '';'' \<notin> set w)"
  using assms
  by (simp add: get_spectra_loaded split_columns_simps tuple_filters_simps
        join_split split_no_sep)

theorem columns_and_filters_pushed_down_witness:
  "resolve_path (repr (example_env plain_table)) (PStr ''GEWPS'') (PStr ''EFTH'')
       (PStr ''2025031500'') PNone =
     Inr ''https://goc-dx.science.gc.ca/~swav000/geoparquet/gewps/2025031500_MSC_GEWPS_EFTH.geoparquet'' \<and>
   tuple_filters PNone = Inr None \<and>
   split_columns PNone = Inr None \<and>
   snd (get_spectra_geoparquet (example_env plain_table) (PStr ''GEWPS'') (PStr ''EFTH'')
          (PStr ''2025031500'') PNone (PStr ''station_name;member'') PNone PNone) =
     [Read_parquet
        ''https://goc-dx.science.gc.ca/~swav000/geoparquet/gewps/2025031500_MSC_GEWPS_EFTH.geoparquet''
        (Some [''station_name'', ''member'']) None] \<and>
   snd (get_spectra_geoparquet (example_env plain_table) (PStr ''GEWPS'') (PStr ''EFTH'')
          (PStr ''2025031500'') PNone PNone example_filters PNone) =
     [Read_parquet
        ''https://goc-dx.science.gc.ca/~swav000/geoparquet/gewps/2025031500_MSC_GEWPS_EFTH.geoparquet''
        None
        (Some [PTuple [PStr ''station_name'', PStr ''=='', PStr ''00N000E''],
               PTuple [PStr ''member'', PStr ''=='', PInt 0]])] \<and>
   tuple_filters example_filters =
     Inr (Some [PTuple [PStr ''station_name'', PStr ''=='', PStr ''00N000E''],
                PTuple [PStr ''member'', PStr ''=='', PInt 0]]) \<and>
   snd (get_spectra_geoparquet (example_env plain_table) (PStr ''GEWPS'') (PStr ''EFTH'')
          (PStr ''2025031500'') PNone (PStr ''station_name;member'') example_filters PNone) =
     [Read_parquet
        ''https://goc-dx.science.gc.ca/~swav000/geoparquet/gewps/2025031500_MSC_GEWPS_EFTH.geoparquet''
        (Some [''station_name'', ''member''])
        (Some [PTuple [PStr ''station_name'', PStr ''=='', PStr ''00N000E''],
               PTuple [PStr ''member'', PStr ''=='', PInt 0]])]"
proof -
  let ?cl = "[ [PStr ''station_name'', PStr ''=='', PStr ''00N000E''],
              [PStr ''member'', PStr ''=='', PInt 0]]"
  have r: "resolve_path (repr (example_env plain_table)) (PStr ''GEWPS'') (PStr ''EFTH'')
       (PStr ''2025031500'') PNone =
     Inr ''https://goc-dx.science.gc.ca/~swav000/geoparquet/gewps/2025031500_MSC_GEWPS_EFTH.geoparquet''"
    by (simp add: resolve_path_def string_eval)
  have f: "example_filters = PList (map PList ?cl)"
    by (simp add: example_filters_def)
  have tf: "tuple_filters example_filters = Inr (Some (map PTuple ?cl))"
    unfolding f by (rule tuple_filters_simps(2))
  note a = columns_and_filters_pushed_down
    [OF r, of PNone "''station_name;member''" PNone PNone ?cl]
  note b = columns_and_filters_pushed_down
    [OF r, of example_filters "''station_name;member''" PNone PNone ?cl]
  have 1: "snd (get_spectra_geoparquet (example_env plain_table) (PStr ''GEWPS'') (PStr ''EFTH'')
          (PStr ''2025031500'') PNone (PStr ''station_name;member'') PNone PNone) =
     [Read_parquet
        ''https://goc-dx.science.gc.ca/~swav000/geoparquet/gewps/2025031500_MSC_GEWPS_EFTH.geoparquet''
        (Some [''station_name'', ''member'']) None]"
    using a [THEN conjunct1, rule_format, OF tuple_filters_simps(1)] by simp
  have 2: "snd (get_spectra_geoparquet (example_env plain_table) (PStr ''GEWPS'') (PStr ''EFTH'')
          (PStr ''2025031500'') PNone PNone example_filters PNone) =
     [Read_parquet
        ''https://goc-dx.science.gc.ca/~swav000/geoparquet/gewps/2025031500_MSC_GEWPS_EFTH.geoparquet''
        None (Some (map PTuple ?cl))]"
    using a [THEN conjunct2, THEN conjunct1, rule_format, OF split_columns_simps(1)]
    by (simp add: f)
  have 3: "snd (get_spectra_geoparquet (example_env plain_table) (PStr ''GEWPS'') (PStr ''EFTH'')
          (PStr ''2025031500'') PNone (PStr ''station_name;member'') example_filters PNone) =
     [Read_parquet
        ''https://goc-dx.science.gc.ca/~swav000/geoparquet/gewps/2025031500_MSC_GEWPS_EFTH.geoparquet''
        (Some [''station_name'', ''member'']) (Some (map PTuple ?cl))]"
    using b [THEN conjunct1, rule_format, OF tf] by simp
  show ?thesis
    using r 1 2 3 tf by (simp add: split_columns_simps tuple_filters_simps)
qed

section \<open>Dictionaries and tables\<close>

lemma dict_set_append: "k \<notin> fst ` set d \<Longrightarrow> dict_set d k v = d @ [(k, v)]"
  by (induction d) auto

lemma keys_dict_set: "fst ` set (dict_set d k v) = insert k (fst ` set d)"
  by (induction d k v rule: dict_set.induct) auto

lemma foldl_dict_set_distinct:
  "distinct (map fst (d @ kvs)) \<Longrightarrow> foldl (\<lambda>d (k, v). dict_set d k v) d kvs = d @ kvs"
proof (induction kvs arbitrary: d)
  case Nil
  then show ?case by simp
next
  case (Cons kv kvs)
  obtain k v where kv: "kv = (k, v)" by (cases kv)
  have "k \<notin> fst ` set d" using Cons.prems kv by auto
  then have "dict_set d k v = d @ [(k, v)]" by (rule dict_set_append)
  moreover have "distinct (map fst ((d @ [(k, v)]) @ kvs))" using Cons.prems kv by simp
  ultimately show ?case using Cons.IH [of "d @ [(k, v)]"] kv by simp
qed

lemma dict_of_distinct: "distinct (map fst kvs) \<Longrightarrow> dict_of kvs = kvs"
  using foldl_dict_set_distinct [of "[]" kvs] by (simp add: dict_of_def)

lemma keys_foldl_dict_set:
  "fst ` set (foldl (\<lambda>d (k, v). dict_set d k v) d kvs) = fst ` set d \<union> fst ` set kvs"
proof (induction kvs arbitrary: d)
  case Nil
  then show ?case by simp
next
  case (Cons kv kvs)
  obtain k v where kv: "kv = (k, v)" by (cases kv)
  show ?case
    unfolding kv using Cons.IH [of "dict_set d k v"] by (simp add: keys_dict_set)
qed

lemma keys_dict_of: "fst ` set (dict_of kvs) = fst ` set kvs"
  using keys_foldl_dict_set [of "[]" kvs] by (simp add: dict_of_def)

lemma names_map_columns: "map fst (map (\<lambda>(n, vs). (n, f vs)) cols) = map fst cols"
  by (induction cols) auto

lemma to_dict_keys: "set (map fst (to_dict df)) = set (column_names df)"
proof -
  have "fst ` set (to_dict df) = set (map fst (map (\<lambda>(n, vs). (n, dict_of (zip (df_index df) vs))) (df_columns df)))"
    by (simp only: to_dict_def keys_dict_of set_map)
  then show ?thesis by (simp only: names_map_columns column_names_def set_map)
qed

lemma dict_of_columns:
  assumes "distinct (map fst cols)"
  shows "dict_of (map (\<lambda>(n, vs). (n, f vs)) cols) = map (\<lambda>(n, vs). (n, f vs)) cols"
proof -
  have "distinct (map fst (map (\<lambda>(n, vs). (n, f vs)) cols))"
    using assms by (simp only: names_map_columns)
  then show ?thesis by (rule dict_of_distinct)
qed

lemma to_dict_names:
  assumes "distinct (column_names df)"
  shows "map fst (to_dict df) = column_names df"
proof -
  have "to_dict df = map (\<lambda>(n, vs). (n, dict_of (zip (df_index df) vs))) (df_columns df)"
    unfolding to_dict_def using assms by (intro dict_of_columns) (simp add: column_names_def)
  then show ?thesis by (simp only: names_map_columns column_names_def)
qed

lemma distinct_keys_zip: "distinct xs \<Longrightarrow> distinct (map fst (zip xs ys))"
  by (simp add: map_fst_zip_take)

lemma to_dict_distinct:
  fixes df :: "('v, 'c) dataframe"
  assumes "distinct (column_names df)" and "distinct (df_index df)"
  shows "to_dict df = map (\<lambda>(n, vs). (n, zip (df_index df) vs)) (df_columns df)"
proof -
  have "dict_of (zip (df_index df) vs) = zip (df_index df) vs" for vs :: "('v, 'c) cell list"
    using assms(2) by (simp add: dict_of_distinct distinct_keys_zip)
  then have "(\<lambda>(n, vs). (n, dict_of (zip (df_index df) vs))) =
      (\<lambda>(n :: string, vs :: ('v, 'c) cell list). (n, zip (df_index df) vs))"
    by (simp add: fun_eq_iff)
  moreover have "dict_of (map (\<lambda>(n, vs). (n, zip (df_index df) vs)) (df_columns df)) =
      map (\<lambda>(n, vs). (n, zip (df_index df) vs)) (df_columns df)"
    using assms(1) by (intro dict_of_columns) (simp add: column_names_def)
  ultimately show ?thesis by (simp add: to_dict_def)
qed

lemma column_names_drop_duplicates: "column_names (drop_duplicates df) = column_names df"
  by (cases "df_empty df") (simp_all only: drop_duplicates_def column_names_def Let_def
        names_map_columns if_True if_False dataframe.simps)

lemma column_names_maybe: "column_names (maybe_drop_duplicates rd df) = column_names df"
  by (simp add: maybe_drop_duplicates_def column_names_drop_duplicates)

lemma transform_no_geometry:
  assumes "''geometry'' \<notin> set (column_names df)"
  shows "transform env rd df = Inr (to_dict (maybe_drop_duplicates rd df))"
proof -
  have "''geometry'' \<notin> set (column_names (maybe_drop_duplicates rd df))"
    using assms by (simp add: column_names_maybe)
  then have "map_of (df_columns (maybe_drop_duplicates rd df)) ''geometry'' = None"
    by (simp add: column_names_def map_of_eq_None_iff)
  then show ?thesis by (simp add: transform_def)
qed

text \<open>The rows kept by \<open>drop_duplicates\<close> are the distinct rows of the table.\<close>

lemma select_first_mask:
  "set (select (first_mask seen rs) rs) = set rs - set seen \<and>
   distinct (select (first_mask seen rs) rs)"
  by (induction rs arbitrary: seen) auto

lemma length_select_le: "length (select bs xs) \<le> length xs"
  by (induction bs xs rule: select.induct) auto

lemma length_select_eq:
  "length xs = length ys \<Longrightarrow> length (select bs xs) = length (select bs ys)"
proof (induction bs arbitrary: xs ys)
  case Nil
  then show ?case by simp
next
  case (Cons b bs)
  show ?case
  proof (cases xs)
    case Nil
    with Cons.prems show ?thesis by simp
  next
    case xs: (Cons x xs')
    with Cons.prems obtain y ys' where ys: "ys = y # ys'" and "length xs' = length ys'"
      by (cases ys) auto
    with Cons.IH [of xs' ys'] xs show ?thesis by simp
  qed
qed

lemma set_select: "set (select bs xs) \<subseteq> set xs"
  by (induction bs xs rule: select.induct) auto

lemma map_of_map_columns:
  "map_of (map (\<lambda>(n, vs). (n, f vs)) cols) k = map_option f (map_of cols k)"
  by (induction cols) auto

lemma well_formed_drop_duplicates:
  assumes "well_formed df"
  shows "well_formed (drop_duplicates df)"
proof (cases "df_empty df")
  case True
  then show ?thesis using assms by (simp add: drop_duplicates_def)
next
  case False
  let ?keep = "first_mask [] (df_rows df)"
  have cols: "df_columns (drop_duplicates df) = map (\<lambda>(n, vs). (n, select ?keep vs)) (df_columns df)"
    and idx: "df_index (drop_duplicates df) = map Row [0 ..< length (select ?keep (df_index df))]"
    using False by (simp_all add: drop_duplicates_def Let_def)
  have "length vs' = length (df_index (drop_duplicates df))"
    if "(n, vs') \<in> set (df_columns (drop_duplicates df))" for n vs'
  proof -
    from that cols obtain vs where "(n, vs) \<in> set (df_columns df)" and vs': "vs' = select ?keep vs"
      by auto
    then have "length vs = length (df_index df)"
      using assms by (auto simp: well_formed_def list_all_iff)
    then show ?thesis
      unfolding vs' idx using length_select_eq [of vs "df_index df" ?keep] by simp
  qed
  then show ?thesis
    using assms
    by (auto simp add: well_formed_def column_names_drop_duplicates list_all_iff)
qed

lemma well_formed_maybe: "well_formed df \<Longrightarrow> well_formed (maybe_drop_duplicates rd df)"
  by (simp add: maybe_drop_duplicates_def well_formed_drop_duplicates)

lemma geometry_maybe:
  assumes "map_of (df_columns df) k = Some gs"
  shows "\<exists>gs'. map_of (df_columns (maybe_drop_duplicates rd df)) k = Some gs' \<and>
               set gs' \<subseteq> set gs"
  using assms set_select [of _ gs]
  by (auto simp add: maybe_drop_duplicates_def drop_duplicates_def Let_def map_of_map_columns)

lemma index_name_maybe:
  assumes "df_index_name df = None \<or> df_index_name df = Some ''index''"
  shows "df_index_name (maybe_drop_duplicates rd df) = None \<or>
         df_index_name (maybe_drop_duplicates rd df) = Some ''index''"
  using assms by (auto simp add: maybe_drop_duplicates_def drop_duplicates_def Let_def)

lemma length_index_maybe:
  "length (df_index (maybe_drop_duplicates rd df)) \<le> length (df_index df)"
  by (simp add: maybe_drop_duplicates_def drop_duplicates_def Let_def length_select_le)

lemma map_exc_all:
  assumes "\<forall>x \<in> set xs. \<exists>y. f x = Inr y \<and> P x y"
  shows "\<exists>ys. map_exc f xs = Inr ys \<and> list_all2 (\<lambda>x y. f x = Inr y \<and> P x y) xs ys"
  using assms
proof (induction xs)
  case Nil
  then show ?case by simp
next
  case (Cons x xs)
  then obtain y ys where "f x = Inr y" "P x y" "map_exc f xs = Inr ys"
      "list_all2 (\<lambda>x y. f x = Inr y \<and> P x y) xs ys"
    by auto
  then show ?case by simp
qed


lemma filter_all: "\<forall>x \<in> set xs. P x \<Longrightarrow> filter P xs = xs"
  by (induction xs) auto

lemma geometry_to_point_ok:
  fixes df :: "('v, 'c) dataframe"
  assumes wf: "well_formed df"
      and nm: "df_index_name df = None \<or> df_index_name df = Some ''index''"
      and ni: "''index'' \<notin> set (column_names df)"
      and np: "''point'' \<notin> set (column_names df)"
      and geo: "map_of (df_columns df) ''geometry'' = Some gs"
      and valid: "\<forall>g \<in> set gs. \<exists>x y. from_wkb env g = Inr (Point x y)"
  shows "\<exists>recs.
           geometry_to_point env gs df =
             Inr \<lparr> df_index_name = None,
                   df_index = map Row [0 ..< length (df_index df)],
                   df_columns = filter (\<lambda>(n, vs). n \<noteq> ''geometry'') (df_columns df)
                                  @ [(''point'', recs)] \<rparr> \<and>
           list_all2 (\<lambda>g d. \<exists>x y. from_wkb env g = Inr (Point x y) \<and>
                                    d = Dict [(''y'', y), (''x'', x)]) gs recs"
proof -
  let ?rest = "filter (\<lambda>(n, vs). n \<noteq> ''geometry'') (df_columns df)"
  let ?df1 = "df \<lparr> df_columns := ?rest \<rparr>"
  have "''geometry'' \<in> set (column_names df)"
    using geo by (auto simp: column_names_def dest: map_of_SomeD intro: rev_image_eqI)
  then have d1: "drop_column ''geometry'' df = Inr ?df1"
    by (simp add: drop_column_def)
  have rest_names: "fst ` set ?rest \<subseteq> set (column_names df)"
    by (auto simp: column_names_def)
  from valid have "\<forall>g \<in> set gs. \<exists>p. from_wkb env g = Inr p \<and> (\<exists>x y. p = Point x y)"
    by auto
  from map_exc_all [OF this] obtain points where
    pts: "map_exc (from_wkb env) gs = Inr points" and
    pts1: "list_all2 (\<lambda>g p. from_wkb env g = Inr p \<and> (\<exists>x y. p = Point x y)) gs points"
    by blast
  have pts2: "list_all2 (\<lambda>g p. \<exists>x y. p = Point x y) gs points"
    and pts3: "list_all2 (\<lambda>g p. from_wkb env g = Inr p) gs points"
    using pts1 by (auto elim: list_all2_mono)
  have "\<forall>p \<in> set points. \<exists>d. (point_record p :: exc + ('v, 'c) cell) = Inr d \<and>
          (\<exists>x y. p = Point x y \<and> d = Dict [(''y'', y), (''x'', x)])"
  proof
    fix p assume "p \<in> set points"
    then obtain i where "i < length points" "p = points ! i"
      by (auto simp: in_set_conv_nth)
    then obtain x y where "p = Point x y"
      using pts2 by (auto simp: list_all2_conv_all_nth)
    then show "\<exists>d. (point_record p :: exc + ('v, 'c) cell) = Inr d \<and>
          (\<exists>x y. p = Point x y \<and> d = Dict [(''y'', y), (''x'', x)])"
      by simp
  qed
  from map_exc_all [OF this] obtain recs :: "('v, 'c) cell list" where
    recs: "map_exc point_record points = Inr recs" and
    recs1: "list_all2 (\<lambda>p d. (point_record p :: exc + ('v, 'c) cell) = Inr d \<and>
              (\<exists>x y. p = Point x y \<and> d = Dict [(''y'', y), (''x'', x)])) points recs"
    by blast
  have recs2: "list_all2 (\<lambda>p d. \<exists>x y. p = Point x y \<and> d = Dict [(''y'', y), (''x'', x)]) points recs"
    using recs1 by (auto elim: list_all2_mono)
  let ?cols2 = "?rest @ [(''point'', recs)]"
  have "''point'' \<notin> fst ` set ?rest"
    using np rest_names by auto
  then have sc: "set_column ''point'' recs ?df1 = df \<lparr> df_columns := ?cols2 \<rparr>"
    by (simp add: set_column_def dict_set_append)
  have names2: "''index'' \<notin> set (column_names (df \<lparr> df_columns := ?cols2 \<rparr>))"
    using ni rest_names by (auto simp: column_names_def)
  have ri: "reset_index (df \<lparr> df_columns := ?cols2 \<rparr>) =
              Inr \<lparr> df_index_name = None,
                    df_index = map Row [0 ..< length (df_index df)],
                    df_columns = (''index'', df_index df) # ?cols2 \<rparr>"
  proof -
    let ?X = "df \<lparr> df_columns := ?cols2 \<rparr>"
    have "(case df_index_name ?X of
             Some nm \<Rightarrow> nm
           | None \<Rightarrow> if ''index'' \<in> set (column_names ?X) then ''level_0'' else ''index'') =
          ''index''"
      using nm names2 by (elim disjE) simp_all
    then show ?thesis
      using names2 by (simp add: reset_index_def)
  qed
  have ni2: "''index'' \<notin> fst ` set ?cols2"
    using names2 by (simp add: column_names_def)
  have "\<forall>c \<in> set ?cols2. (case c of (n, vs) \<Rightarrow> n \<noteq> ''index'')"
  proof
    fix c assume "c \<in> set ?cols2"
    then have "fst c \<in> fst ` set ?cols2" by (rule imageI)
    with ni2 show "case c of (n, vs) \<Rightarrow> n \<noteq> ''index''" by (cases c) auto
  qed
  then have "filter (\<lambda>(n, vs). n \<noteq> ''index'') ?cols2 = ?cols2"
    by (rule filter_all)
  then have d2: "drop_column ''index''
              \<lparr> df_index_name = None,
                df_index = map Row [0 ..< length (df_index df)],
                df_columns = (''index'', df_index df) # ?cols2 \<rparr> =
            Inr \<lparr> df_index_name = None,
                  df_index = map Row [0 ..< length (df_index df)],
                  df_columns = ?cols2 \<rparr>"
    by (simp add: drop_column_def column_names_def)
  have "geometry_to_point env gs df =
          Inr \<lparr> df_index_name = None,
                df_index = map Row [0 ..< length (df_index df)],
                df_columns = ?cols2 \<rparr>"
    by (simp only: geometry_to_point_def d1 pts recs sc ri d2 sum.case)
  moreover have "list_all2 (\<lambda>g d. \<exists>x y. from_wkb env g = Inr (Point x y) \<and>
                                    d = Dict [(''y'', y), (''x'', x)]) gs recs"
    using pts3 recs2 by (auto simp: list_all2_conv_all_nth)
  ultimately show ?thesis by blast
qed

section \<open>Tables without a geometry column\<close>

text \<open>
  C7, as the code has it. When the loaded table has no column named \<open>geometry\<close>, the
  output is the \<open>to_dict\<close> of the loaded table, deduplicated first if that was asked
  for, and its keys are exactly the table's column names. When the column names are
  distinct the keys come in the table's order, and when the index labels are distinct
  as well each column maps every label to the column's cell in that row, so that all
  values are kept. Without deduplication the table is the loaded one.
\<close>

theorem no_geometry_unchanged:
  assumes "split_columns columns = Inr cols"
      and "tuple_filters filters = Inr flts"
      and "resolve_path (repr env) model variable date region = Inr path"
      and "read_parquet env path cols flts = Inr df"
      and "''geometry'' \<notin> set (column_names df)"
  shows "get_spectra_geoparquet env model variable date region columns filters rd =
           (Inr (to_dict (maybe_drop_duplicates rd df)), [Read_parquet path cols flts]) \<and>
         set (map fst (to_dict (maybe_drop_duplicates rd df))) = set (column_names df) \<and>
         (distinct (column_names df) \<longrightarrow>
            map fst (to_dict (maybe_drop_duplicates rd df)) = column_names df) \<and>
         (distinct (column_names df) \<and> distinct (df_index (maybe_drop_duplicates rd df)) \<longrightarrow>
            to_dict (maybe_drop_duplicates rd df) =
              map (\<lambda>(n, vs). (n, zip (df_index (maybe_drop_duplicates rd df)) vs))
                (df_columns (maybe_drop_duplicates rd df))) \<and>
         (\<not> truthy rd \<longrightarrow> maybe_drop_duplicates rd df = df)"
proof -
  have "get_spectra_geoparquet env model variable date region columns filters rd =
           (Inr (to_dict (maybe_drop_duplicates rd df)), [Read_parquet path cols flts])"
    using assms by (simp add: get_spectra_loaded transform_no_geometry)
  moreover have "set (map fst (to_dict (maybe_drop_duplicates rd df))) = set (column_names df)"
    by (simp only: to_dict_keys column_names_maybe)
  moreover have "distinct (column_names df) \<longrightarrow>
            map fst (to_dict (maybe_drop_duplicates rd df)) = column_names df"
    using to_dict_names [of "maybe_drop_duplicates rd df"] by (simp add: column_names_maybe)
  moreover have "distinct (column_names df) \<and> distinct (df_index (maybe_drop_duplicates rd df)) \<longrightarrow>
            to_dict (maybe_drop_duplicates rd df) =
              map (\<lambda>(n, vs). (n, zip (df_index (maybe_drop_duplicates rd df)) vs))
                (df_columns (maybe_drop_duplicates rd df))"
    using to_dict_distinct [of "maybe_drop_duplicates rd df"] by (simp add: column_names_maybe)
  moreover have "\<not> truthy rd \<longrightarrow> maybe_drop_duplicates rd df = df"
    by (simp add: maybe_drop_duplicates_def)
  ultimately show ?thesis by blast
qed


lemmas table_eval =
  example_env_def maybe_drop_duplicates_def drop_duplicates_def df_empty_def df_rows_def
  column_names_def Let_def upt_rec

lemma example_env_path:
  "resolve_path (repr (example_env tbl)) (PStr ''GEWPS'') (PStr ''EFTH'')
       (PStr ''2025031500'') PNone =
     Inr ''https://goc-dx.science.gc.ca/~swav000/geoparquet/gewps/2025031500_MSC_GEWPS_EFTH.geoparquet''"
  by (simp add: resolve_path_def string_eval)

lemma example_env_read: "read_parquet (example_env tbl) path cols flts = Inr tbl"
  by (simp add: example_env_def)

theorem no_geometry_unchanged_witness:
  "''geometry'' \<notin> set (column_names plain_table) \<and>
   get_spectra_geoparquet (example_env plain_table) (PStr ''GEWPS'') (PStr ''EFTH'')
       (PStr ''2025031500'') PNone PNone PNone (PBool True) =
     (Inr [(''station_name'', [(Row 0, Val [1]), (Row 1, Val [2])]),
           (''member'', [(Row 0, Val [0]), (Row 1, Val [0])])],
      [Read_parquet
         ''https://goc-dx.science.gc.ca/~swav000/geoparquet/gewps/2025031500_MSC_GEWPS_EFTH.geoparquet''
         None None]) \<and>
   get_spectra_geoparquet (example_env plain_table) (PStr ''GEWPS'') (PStr ''EFTH'')
       (PStr ''2025031500'') PNone PNone PNone PNone =
     (Inr [(''station_name'', [(Row 0, Val [1]), (Row 1, Val [2]), (Row 2, Val [1])]),
           (''member'', [(Row 0, Val [0]), (Row 1, Val [0]), (Row 2, Val [0])])],
      [Read_parquet
         ''https://goc-dx.science.gc.ca/~swav000/geoparquet/gewps/2025031500_MSC_GEWPS_EFTH.geoparquet''
         None None])"
proof -
  have g: "''geometry'' \<notin> set (column_names plain_table)"
    by (simp add: plain_table_def column_names_def)
  note inst = no_geometry_unchanged
    [OF split_columns_simps(1) tuple_filters_simps(1) example_env_path example_env_read g]
  have d: "distinct (column_names plain_table)"
    "distinct (df_index (maybe_drop_duplicates (PBool True) plain_table))"
    "distinct (df_index (maybe_drop_duplicates PNone plain_table))"
    by (simp_all add: plain_table_def table_eval)
  show ?thesis
    using g d inst [of "PBool True"] inst [of PNone]
    by (simp add: plain_table_def table_eval)
qed

text \<open>
  C7, as stated, fails. \<open>to_dict\<close> keys the rows of a column by their index label and
  the columns by their name: of two rows with the same label only the later one is in
  the output, and of two columns with the same name only the later one, so the
  table's values are not all kept.
\<close>

theorem labels_or_names_repeated:
  "''geometry'' \<notin> set (column_names repeated_labels_table) \<and>
   df_columns repeated_labels_table = [(''station_name'', [Val [1], Val [2]])] \<and>
   get_spectra_geoparquet (example_env repeated_labels_table) (PStr ''GEWPS'') (PStr ''EFTH'')
       (PStr ''2025031500'') PNone PNone PNone PNone =
     (Inr [(''station_name'', [(Val [0], Val [2])])],
      [Read_parquet
         ''https://goc-dx.science.gc.ca/~swav000/geoparquet/gewps/2025031500_MSC_GEWPS_EFTH.geoparquet''
         None None]) \<and>
   ''geometry'' \<notin> set (column_names repeated_names_table) \<and>
   df_columns repeated_names_table = [(''member'', [Val [1]]), (''member'', [Val [2]])] \<and>
   get_spectra_geoparquet (example_env repeated_names_table) (PStr ''GEWPS'') (PStr ''EFTH'')
       (PStr ''2025031500'') PNone PNone PNone PNone =
     (Inr [(''member'', [(Row 0, Val [2])])],
      [Read_parquet
         ''https://goc-dx.science.gc.ca/~swav000/geoparquet/gewps/2025031500_MSC_GEWPS_EFTH.geoparquet''
         None None])"
  by (simp add: repeated_labels_table_def repeated_names_table_def column_names_def
        example_env_def get_spectra_geoparquet_def split_columns_def tuple_filters_def
        resolve_path_def transform_def maybe_drop_duplicates_def to_dict_def dict_of_def Let_def
        string_eval)

section \<open>Tables with a geometry column\<close>

text \<open>
  What the conversion does on the tables that lines 169-170 are written for. Let the
  loaded table have distinct column names, one cell per row in each column, an index
  that is unnamed or named \<open>index\<close>, no column named \<open>index\<close> and none named
  \<open>point\<close>, and a column \<open>geometry\<close> whose cells all decode to points. Let \<open>N\<close> be
  the number of rows after the deduplication, if that was asked for. Then the output
  has the other columns in their order, each mapping the row positions \<open>0..N-1\<close> to
  its cells, followed by the key \<open>point\<close>, which maps each row position to the record
  with keys \<open>y\<close> and \<open>x\<close> of the point decoded from that row's geometry; there is no
  key \<open>geometry\<close>.
\<close>

lemma geometry_becomes_point:
  fixes df :: "('v, 'c) dataframe"
  assumes "split_columns columns = Inr cols"
      and "tuple_filters filters = Inr flts"
      and "resolve_path (repr env) model variable date region = Inr path"
      and "read_parquet env path cols flts = Inr df"
      and "well_formed df"
      and "df_index_name df = None \<or> df_index_name df = Some ''index''"
      and "''index'' \<notin> set (column_names df)"
      and "''point'' \<notin> set (column_names df)"
      and "map_of (df_columns df) ''geometry'' = Some gs"
      and "\<forall>g \<in> set gs. \<exists>x y. from_wkb env g = Inr (Point x y)"
  shows "\<exists>gs' recs.
           map_of (df_columns (maybe_drop_duplicates rd df)) ''geometry'' = Some gs' \<and>
           list_all2 (\<lambda>g d. \<exists>x y. from_wkb env g = Inr (Point x y) \<and>
                                    d = Dict [(''y'', y), (''x'', x)]) gs' recs \<and>
           get_spectra_geoparquet env model variable date region columns filters rd =
             (Inr (map (\<lambda>(n, vs).
                          (n, zip (map Row [0 ..< length (df_index (maybe_drop_duplicates rd df))])
                                vs))
                     (filter (\<lambda>(n, vs). n \<noteq> ''geometry'')
                        (df_columns (maybe_drop_duplicates rd df)) @ [(''point'', recs)])),
              [Read_parquet path cols flts]) \<and>
           well_formed (maybe_drop_duplicates rd df) \<and>
           length (df_index (maybe_drop_duplicates rd df)) \<le> length (df_index df) \<and>
           (\<not> truthy rd \<longrightarrow> maybe_drop_duplicates rd df = df)"
proof -
  let ?df = "maybe_drop_duplicates rd df"
  let ?n = "length (df_index ?df)"
  have wf: "well_formed ?df"
    using assms(5) by (rule well_formed_maybe)
  have nm: "df_index_name ?df = None \<or> df_index_name ?df = Some ''index''"
    using assms(6) by (rule index_name_maybe)
  have ni: "''index'' \<notin> set (column_names ?df)" and np: "''point'' \<notin> set (column_names ?df)"
    using assms(7,8) by (simp_all add: column_names_maybe)
  obtain gs' where geo: "map_of (df_columns ?df) ''geometry'' = Some gs'" and sub: "set gs' \<subseteq> set gs"
    using geometry_maybe [OF assms(9)] by blast
  have valid: "\<forall>g \<in> set gs'. \<exists>x y. from_wkb env g = Inr (Point x y)"
    using assms(10) sub by blast
  let ?rest = "filter (\<lambda>(n, vs). n \<noteq> ''geometry'') (df_columns ?df)"
  obtain recs where
    g2p: "geometry_to_point env gs' ?df =
            Inr \<lparr> df_index_name = None, df_index = map Row [0 ..< ?n],
                  df_columns = ?rest @ [(''point'', recs)] \<rparr>" and
    dec: "list_all2 (\<lambda>g d. \<exists>x y. from_wkb env g = Inr (Point x y) \<and>
                                d = Dict [(''y'', y), (''x'', x)]) gs' recs"
    using geometry_to_point_ok [OF wf nm ni np geo valid] by blast
  let ?out = "\<lparr> df_index_name = None, df_index = map Row [0 ..< ?n],
                df_columns = ?rest @ [(''point'', recs)] \<rparr>"
  have "distinct (map fst ?rest)"
    using wf by (simp add: well_formed_def column_names_def distinct_map_filter)
  moreover have "''point'' \<notin> fst ` set ?rest"
    using np by (auto simp: column_names_def)
  ultimately have dn: "distinct (column_names ?out)"
    by (simp add: column_names_def)
  have di: "distinct (df_index ?out)"
    by (simp add: distinct_map inj_on_def)
  have "transform env rd df = Inr (to_dict ?out)"
    by (simp add: transform_def Let_def geo g2p)
  also have "to_dict ?out =
      map (\<lambda>(n, vs). (n, zip (map Row [0 ..< ?n]) vs)) (?rest @ [(''point'', recs)])"
    using to_dict_distinct [OF dn di] by simp
  finally have "get_spectra_geoparquet env model variable date region columns filters rd =
             (Inr (map (\<lambda>(n, vs). (n, zip (map Row [0 ..< ?n]) vs))
                     (?rest @ [(''point'', recs)])),
              [Read_parquet path cols flts])"
    using assms(1-4) by (simp add: get_spectra_loaded)
  moreover have "?n \<le> length (df_index df)"
    by (rule length_index_maybe)
  moreover have "\<not> truthy rd \<longrightarrow> ?df = df"
    by (simp add: maybe_drop_duplicates_def)
  ultimately show ?thesis
    using geo dec wf by blast
qed

lemma example_wkb_valid:
  "\<forall>g \<in> set [Val [10, 20], Val [30, 40], Val [10, 20]].
     \<exists>x y. from_wkb (example_env tbl) g = Inr (Point x y)"
  by (simp add: example_env_def)

lemma geometry_becomes_point_example:
  "well_formed spectra_table \<and>
   df_index_name spectra_table = None \<and>
   ''index'' \<notin> set (column_names spectra_table) \<and>
   ''point'' \<notin> set (column_names spectra_table) \<and>
   map_of (df_columns spectra_table) ''geometry'' =
     Some [Val [10, 20], Val [30, 40], Val [10, 20]] \<and>
   get_spectra_geoparquet (example_env spectra_table) (PStr ''GEWPS'') (PStr ''EFTH'')
       (PStr ''2025031500'') PNone PNone PNone (PBool True) =
     (Inr [(''station_name'', [(Row 0, Val [1]), (Row 1, Val [2])]),
           (''point'', [(Row 0, Dict [(''y'', 20), (''x'', 10)]),
                        (Row 1, Dict [(''y'', 40), (''x'', 30)])])],
      [Read_parquet
         ''https://goc-dx.science.gc.ca/~swav000/geoparquet/gewps/2025031500_MSC_GEWPS_EFTH.geoparquet''
         None None])"
proof -
  have wf: "well_formed spectra_table"
    and nm: "df_index_name spectra_table = None \<or> df_index_name spectra_table = Some ''index''"
    and ni: "''index'' \<notin> set (column_names spectra_table)"
    and np: "''point'' \<notin> set (column_names spectra_table)"
    and geo: "map_of (df_columns spectra_table) ''geometry'' =
                Some [Val [10, 20], Val [30, 40], Val [10, 20]]"
    by (simp_all add: spectra_table_def well_formed_def column_names_def)
  have dd: "maybe_drop_duplicates (PBool True) spectra_table =
              \<lparr> df_index_name = None, df_index = [Row 0, Row 1],
                df_columns = [(''station_name'', [Val [1], Val [2]]),
                              (''geometry'', [Val [10, 20], Val [30, 40]])] \<rparr>"
    by (simp add: spectra_table_def table_eval)
  from geometry_becomes_point
         [OF split_columns_simps(1) tuple_filters_simps(1) example_env_path example_env_read
             wf nm ni np geo example_wkb_valid, of "PBool True"]
  obtain gs' recs where
    a: "map_of (df_columns (maybe_drop_duplicates (PBool True) spectra_table)) ''geometry'' =
          Some gs'" and
    b: "list_all2 (\<lambda>g d. \<exists>x y. from_wkb (example_env spectra_table) g = Inr (Point x y) \<and>
                                d = Dict [(''y'', y), (''x'', x)]) gs' recs" and
    c: "get_spectra_geoparquet (example_env spectra_table) (PStr ''GEWPS'') (PStr ''EFTH'')
          (PStr ''2025031500'') PNone PNone PNone (PBool True) =
          (Inr (map (\<lambda>(n, vs).
                       (n, zip (map Row [0 ..< length (df_index
                                  (maybe_drop_duplicates (PBool True) spectra_table))]) vs))
                  (filter (\<lambda>(n, vs). n \<noteq> ''geometry'')
                     (df_columns (maybe_drop_duplicates (PBool True) spectra_table))
                   @ [(''point'', recs)])),
           [Read_parquet
              ''https://goc-dx.science.gc.ca/~swav000/geoparquet/gewps/2025031500_MSC_GEWPS_EFTH.geoparquet''
              None None])"
    by blast
  from a have "gs' = [Val [10, 20], Val [30, 40]]"
    by (simp add: dd)
  with b have "recs = [Dict [(''y'', 20), (''x'', 10)], Dict [(''y'', 40), (''x'', 30)]]"
    by (auto simp add: list_all2_Cons1 example_env_def)
  moreover have "df_index_name spectra_table = None"
    by (simp add: spectra_table_def)
  ultimately show ?thesis
    using c wf ni np geo by (simp add: dd upt_rec)
qed

text \<open>
  C1. The claim does not hold of the code: \<open>df.reset_index(inplace=True)\<close> followed by
  \<open>df.drop(columns=["index"])\<close> is meant to discard the column that the reset makes of
  the old index, and takes that column to be called \<open>index\<close>.
  On a loaded table that has a column named \<open>index\<close> of its own, the reset calls the
  new column \<open>level_0\<close> and the drop removes the table's column: the output has no
  key \<open>index\<close>, so that column does not keep its values, and it has a key \<open>level_0\<close>
  that is no column of the table.
  On a loaded table whose index has a name, here \<open>station\<close>, the reset makes a column
  of that name and the drop raises \<open>KeyError\<close>: there is no output at all. The same
  table with \<open>remove_duplicates\<close> set, which renews the index first, gives the output
  the claim describes.
\<close>

theorem index_column_lost:
  "map_of (df_columns indexed_table) ''geometry'' = Some [Val [10, 20], Val [30, 40]] \<and>
   from_wkb (example_env indexed_table) (Val [10, 20]) = Inr (Point 10 20) \<and>
   from_wkb (example_env indexed_table) (Val [30, 40]) = Inr (Point 30 40) \<and>
   map_of (df_columns indexed_table) ''index'' = Some [Val [7], Val [8]] \<and>
   get_spectra_geoparquet (example_env indexed_table) (PStr ''GEWPS'') (PStr ''EFTH'')
       (PStr ''2025031500'') PNone PNone PNone PNone =
     (Inr [(''level_0'', [(Row 0, Row 0), (Row 1, Row 1)]),
           (''point'', [(Row 0, Dict [(''y'', 20), (''x'', 10)]),
                        (Row 1, Dict [(''y'', 40), (''x'', 30)])])],
      [Read_parquet
         ''https://goc-dx.science.gc.ca/~swav000/geoparquet/gewps/2025031500_MSC_GEWPS_EFTH.geoparquet''
         None None]) \<and>
   map_of (df_columns named_index_table) ''geometry'' = Some [Val [10, 20], Val [30, 40]] \<and>
   df_index_name named_index_table = Some ''station'' \<and>
   get_spectra_geoparquet (example_env named_index_table) (PStr ''GEWPS'') (PStr ''EFTH'')
       (PStr ''2025031500'') PNone PNone PNone PNone =
     (Inl (Raise KeyError
             ([CHR 0x22] @ ''['' @ [CHR 0x27] @ ''index'' @ [CHR 0x27] @ ''] not found in axis''
               @ [CHR 0x22])),
      [Read_parquet
         ''https://goc-dx.science.gc.ca/~swav000/geoparquet/gewps/2025031500_MSC_GEWPS_EFTH.geoparquet''
         None None]) \<and>
   get_spectra_geoparquet (example_env named_index_table) (PStr ''GEWPS'') (PStr ''EFTH'')
       (PStr ''2025031500'') PNone PNone PNone (PBool True) =
     (Inr [(''member'', [(Row 0, Val [0]), (Row 1, Val [0])]),
           (''point'', [(Row 0, Dict [(''y'', 20), (''x'', 10)]),
                        (Row 1, Dict [(''y'', 40), (''x'', 30)])])],
      [Read_parquet
         ''https://goc-dx.science.gc.ca/~swav000/geoparquet/gewps/2025031500_MSC_GEWPS_EFTH.geoparquet''
         None None])"
  by (simp add: indexed_table_def named_index_table_def column_names_def
        example_env_def get_spectra_geoparquet_def split_columns_def tuple_filters_def
        resolve_path_def transform_def maybe_drop_duplicates_def drop_duplicates_def
        df_empty_def df_rows_def geometry_to_point_def
        drop_column_def set_column_def reset_index_def to_dict_def dict_of_def Let_def upt_rec
        string_eval)

text \<open>
  A column named \<open>point\<close> that the loaded table already has is replaced where it
  stands by the assignment \<open>df["point"] = geom\<close>.
\<close>

lemma point_column_replaced:
  "column_names pointed_table = [''point'', ''station_name'', ''geometry''] \<and>
   get_spectra_geoparquet (example_env pointed_table) (PStr ''GEWPS'') (PStr ''EFTH'')
       (PStr ''2025031500'') PNone PNone PNone PNone =
     (Inr [(''point'', [(Row 0, Dict [(''y'', 20), (''x'', 10)]),
                        (Row 1, Dict [(''y'', 40), (''x'', 30)])]),
           (''station_name'', [(Row 0, Val [1]), (Row 1, Val [2])])],
      [Read_parquet
         ''https://goc-dx.science.gc.ca/~swav000/geoparquet/gewps/2025031500_MSC_GEWPS_EFTH.geoparquet''
         None None])"
  by (simp add: pointed_table_def column_names_def
        example_env_def get_spectra_geoparquet_def split_columns_def tuple_filters_def
        resolve_path_def transform_def maybe_drop_duplicates_def geometry_to_point_def
        drop_column_def set_column_def reset_index_def to_dict_def dict_of_def Let_def upt_rec
        string_eval)

end
